theory Spec2Isabelle
  imports Complex_Main
begin

section \<open>Python values and text\<close>

text \<open>
  An exception is represented by the text \<open>str(e)\<close> gives for it: that text is all the
  handlers of \<open>tools.py\<close> and \<open>server.py\<close> read. A computation that may raise returns
  \<open>exn + 'a\<close>, with \<open>Inl\<close> for the exception.
\<close>

datatype exn = Exn (message: string)

text \<open>
  Metadata values are \<open>Any\<close> in the source. The code does two things with them: it
  formats them (\<open>f"{value}"\<close>, that is \<open>str(value)\<close>) and it uses them as a \<open>str\<close>
  (\<open>.strip()\<close>, an item of \<open>"\n".join\<close>). A value is therefore either a \<open>str\<close>, or
  a value of another type, of which the model keeps the type's name and the text \<open>str()\<close>
  returns (both appear in Python's messages and in the formatted output).
\<close>

datatype pyval = PStr string | POther (type_name: string) (rendering: string)

fun py_str :: "pyval \<Rightarrow> string" where
  "py_str (PStr s) = s"
| "py_str (POther t r) = r"

type_synonym metadata = "(string \<times> pyval) list"

text \<open>
  A \<open>dict\<close> is the list of its items in key order (insertion order); its keys are
  distinct. \<open>k in d\<close> and \<open>d.get(k)\<close> are \<open>map_of\<close>.
\<close>

definition NL :: string where
  "NL = [CHR 0x0A]"

text \<open>\<open>"\n".join(lines)\<close> on a list of \<open>str\<close>.\<close>

fun join_lines :: "string list \<Rightarrow> string" where
  "join_lines [] = []"
| "join_lines [l] = l"
| "join_lines (l # ls) = l @ NL @ join_lines ls"

text \<open>The decimal numeral of a natural number, as \<open>str(n)\<close> and \<open>f"{i}"\<close> print it.\<close>

fun string_of_nat :: "nat \<Rightarrow> string" where
  "string_of_nat n =
     (if n < 10 then [char_of (48 + n)]
      else string_of_nat (n div 10) @ [char_of (48 + n mod 10)])"

declare string_of_nat.simps [simp del]

text \<open>
  \<open>str.strip()\<close>: removes leading and trailing whitespace. A \<open>char\<close> is a code point
  below 256; Python's whitespace there is 9 to 13, 28 to 32, 133 and 160.
\<close>

definition py_isspace :: "char \<Rightarrow> bool" where
  "py_isspace c =
     (let n = (of_char c :: nat)
      in (9 \<le> n \<and> n \<le> 13) \<or> (28 \<le> n \<and> n \<le> 32) \<or> n = 133 \<or> n = 160)"

definition strip :: "string \<Rightarrow> string" where
  "strip s = rev (dropWhile py_isspace (rev (dropWhile py_isspace s)))"

section \<open>The Pinecone client, as the tools use it\<close>

text \<open>
  \<open>pinecone.py\<close> and \<open>chunking.py\<close> are collaborators of the tools: the client's
  methods and the chunker are parameters of the model. An embedding is a vector of
  numbers the tools never inspect.
\<close>

type_synonym embedding = "real list"

record PineconeRecord =
  rec_id :: string
  rec_embedding :: embedding
  rec_text :: string
  rec_metadata :: metadata

record Chunk =
  chunk_id :: string
  chunk_content :: string
  chunk_metadata :: metadata

text \<open>
  The filter of \<open>semantic_search_tool\<close> is a \<open>dict\<close> whose values are a string
  (\<open>filters["category"] = category\<close>), \<open>{"$in": tags}\<close> or
  \<open>{"$gte": start, "$lte": end}\<close>.
\<close>

datatype filter_value =
    FEq string
  | FIn "string list"
  | FRange string string

type_synonym filters = "(string \<times> filter_value) list"

text \<open>
  A match of a search: \<open>match['score']\<close> and \<open>match['id']\<close> raise \<open>KeyError\<close> when the
  key is absent, \<open>match.get("metadata", {})\<close> does not. Floating point is outside the
  model: a score is represented by the text \<open>f"{score:.3f}"\<close> gives for it.
\<close>

record Match =
  match_id :: "string option"
  match_score :: "string option"
  match_metadata :: "metadata option"

record SearchResults =
  matches :: "Match list option"

text \<open>
  The response of \<open>fetch_records\<close>. \<open>read_document_tool\<close> reads it as an object
  (\<open>record.vectors.get(document_id)\<close>, then \<open>vector.metadata\<close> when the attribute
  exists), \<open>get_vector_resource\<close> as a mapping (\<open>"records" in record\<close>,
  \<open>record["records"][0]\<close>, then \<open>vector_data.get('id')\<close> and
  \<open>vector_data.get("metadata", {})\<close>). \<open>None\<close> stands for an absent attribute or key.
\<close>

record Vector =
  vector_metadata :: "metadata option"

record VectorData =
  vd_id :: "string option"
  vd_metadata :: "metadata option"

record FetchResponse =
  vectors :: "(string \<times> Vector) list"
  records :: "VectorData list option"

text \<open>
  Every call of a client method is recorded, with its arguments and its outcome, in the
  order the calls are made.
\<close>

datatype 'j call_event =
    SearchRecords string int filters bool "string option" "exn + SearchResults"
  | Stats "exn + 'j"
  | FetchRecords "string list" "string option" "exn + FetchResponse"
  | GenerateEmbeddings string "exn + embedding"
  | UpsertRecords "PineconeRecord list" "string option" "exn + unit"
  | ListRecords "string option" "exn + 'j"

text \<open>
  The logger's records: the warning \<open>f"Skipping invalid chunk: {chunk}"\<close>, kept with
  the chunk it prints, and an error with its message.
\<close>

datatype log_record =
    LogWarning Chunk
  | LogError string

text \<open>
  The state a tool call runs in: the client's own state (of any type \<open>'c\<close>), the calls
  made so far and the records of the logger.
\<close>

record ('c, 'j) world =
  backend :: 'c
  calls :: "'j call_event list"
  logged :: "log_record list"

text \<open>
  A client method takes the client's state and returns its outcome and the new state;
  \<open>'j\<close> is the type of the values \<open>stats\<close> and \<open>list_records\<close> return, which the
  tools only pass to \<open>json.dumps\<close>.
\<close>

record ('c, 'j) PineconeClient =
  search_records ::
    "string \<Rightarrow> int \<Rightarrow> filters \<Rightarrow> bool \<Rightarrow> string option \<Rightarrow> 'c \<Rightarrow> (exn + SearchResults) \<times> 'c"
  stats :: "'c \<Rightarrow> (exn + 'j) \<times> 'c"
  fetch_records :: "string list \<Rightarrow> string option \<Rightarrow> 'c \<Rightarrow> (exn + FetchResponse) \<times> 'c"
  generate_embeddings :: "string \<Rightarrow> 'c \<Rightarrow> (exn + embedding) \<times> 'c"
  upsert_records :: "PineconeRecord list \<Rightarrow> string option \<Rightarrow> 'c \<Rightarrow> (exn + unit) \<times> 'c"
  list_records :: "string option \<Rightarrow> 'c \<Rightarrow> (exn + 'j) \<times> 'c"

definition invoke ::
  "('c \<Rightarrow> (exn + 'a) \<times> 'c) \<Rightarrow> ((exn + 'a) \<Rightarrow> 'j call_event) \<Rightarrow> ('c, 'j) world
     \<Rightarrow> (exn + 'a) \<times> ('c, 'j) world" where
  "invoke method event w =
     (case method (backend w) of
        (r, b) \<Rightarrow> (r, w\<lparr>backend := b, calls := calls w @ [event r]\<rparr>))"

section \<open>The tools of \<open>tools.py\<close>\<close>

text \<open>The value every tool returns: \<open>{"type": "text", "text": t}\<close>.\<close>

record tool_result =
  result_type :: string
  result_text :: string

definition text_result :: "string \<Rightarrow> tool_result" where
  "text_result t = \<lparr>result_type = ''text'', result_text = t\<rparr>"

text \<open>
  \<open>try: body  except Exception as e: handler\<close>. What the block returns is \<open>Inr\<close>; an
  exception that leaves the block is \<open>Inl\<close>.
\<close>

definition try_except ::
  "('w \<Rightarrow> (exn + 'a) \<times> 'w) \<Rightarrow> (exn \<Rightarrow> 'w \<Rightarrow> (exn + 'a) \<times> 'w) \<Rightarrow> 'w \<Rightarrow> (exn + 'a) \<times> 'w" where
  "try_except body handler w =
     (case body w of
        (Inl e, w') \<Rightarrow> handler e w'
      | (Inr v, w') \<Rightarrow> (Inr v, w'))"

text \<open>
  The handler all five tools share:
  \<open>logger.error(f"<prefix>: {e}"); return {"type": "text", "text": f"Error: {str(e)}"}\<close>.
\<close>

definition error_handler ::
  "string \<Rightarrow> exn \<Rightarrow> ('c, 'j) world \<Rightarrow> (exn + tool_result) \<times> ('c, 'j) world" where
  "error_handler prefix e w =
     (Inr (text_result (''Error: '' @ message e)),
      w\<lparr>logged := logged w @ [LogError (prefix @ '': '' @ message e)]\<rparr>)"

subsection \<open>semantic-search\<close>

text \<open>
  Lines 39 to 49: the filter. \<open>if category\<close> and \<open>if tags\<close> test truthiness, so
  \<open>None\<close>, the empty string and the empty list add nothing; the date range is added
  when the dictionary is non-empty and has both keys.
\<close>

definition semantic_search_filters ::
  "string option \<Rightarrow> string list option \<Rightarrow> (string \<times> string) list option \<Rightarrow> filters" where
  "semantic_search_filters category tags date_range =
     (case category of
        None \<Rightarrow> []
      | Some c \<Rightarrow> if c \<noteq> [] then [(''category'', FEq c)] else []) @
     (case tags of
        None \<Rightarrow> []
      | Some ts \<Rightarrow> if ts \<noteq> [] then [(''tags'', FIn ts)] else []) @
     (case date_range of
        None \<Rightarrow> []
      | Some d \<Rightarrow>
          (if d \<noteq> [] then
             (case map_of d ''start'' of
                None \<Rightarrow> []
              | Some date_start \<Rightarrow>
                  (case map_of d ''end'' of
                     None \<Rightarrow> []
                   | Some date_end \<Rightarrow> [(''date'', FRange date_start date_end)]))
           else []))"

text \<open>
  Lines 62 to 67: the loop over \<open>enumerate(matches, 1)\<close>. The first argument is the
  number of the next result, the second the text built so far.
\<close>

definition key_error :: "string \<Rightarrow> exn" where
  "key_error k = Exn ([CHR 0x27] @ k @ [CHR 0x27])"

definition strip_text :: "pyval \<Rightarrow> exn + string" where
  "strip_text v =
     (case v of
        PStr s \<Rightarrow> Inr (strip s)
      | POther t r \<Rightarrow>
          Inl (Exn ([CHR 0x27] @ t @ [CHR 0x27] @ '' object has no attribute ''
                    @ [CHR 0x27] @ ''strip'' @ [CHR 0x27])))"

fun format_matches :: "nat \<Rightarrow> string \<Rightarrow> Match list \<Rightarrow> exn + string" where
  "format_matches i formatted_text [] = Inr formatted_text"
| "format_matches i formatted_text (m # ms) =
     (let md = (case match_metadata m of None \<Rightarrow> [] | Some d \<Rightarrow> d) in
      case match_score m of
        None \<Rightarrow> Inl (key_error ''score'')
      | Some score \<Rightarrow>
         (case match_id m of
            None \<Rightarrow> Inl (key_error ''id'')
          | Some mid \<Rightarrow>
             (case strip_text (case map_of md ''text'' of None \<Rightarrow> PStr [] | Some v \<Rightarrow> v) of
                Inl e \<Rightarrow> Inl e
              | Inr t \<Rightarrow>
                  format_matches (Suc i)
                    (formatted_text
                       @ ''Result '' @ string_of_nat i @ '' | Similarity: '' @ score
                       @ '' | Document ID: '' @ mid @ NL
                       @ t @ NL
                       @ replicate 10 (CHR ''-'') @ NL @ NL)
                    ms)))"

definition semantic_search_body ::
  "('c, 'j) PineconeClient \<Rightarrow> string \<Rightarrow> int \<Rightarrow> string option \<Rightarrow> string option
     \<Rightarrow> string list option \<Rightarrow> (string \<times> string) list option
     \<Rightarrow> ('c, 'j) world \<Rightarrow> (exn + tool_result) \<times> ('c, 'j) world" where
  "semantic_search_body client query top_k namespace category tags date_range w =
     (let fs = semantic_search_filters category tags date_range in
      case invoke (search_records client query top_k fs True namespace)
                  (SearchRecords query top_k fs True namespace) w of
        (Inl e, w') \<Rightarrow> (Inl e, w')
      | (Inr results, w') \<Rightarrow>
          (case format_matches 1 (''Retrieved Contexts:'' @ NL @ NL)
                  (case matches results of None \<Rightarrow> [] | Some ms \<Rightarrow> ms) of
             Inl e \<Rightarrow> (Inl e, w')
           | Inr formatted_text \<Rightarrow> (Inr (text_result formatted_text), w')))"

definition semantic_search_tool ::
  "('c, 'j) PineconeClient \<Rightarrow> string \<Rightarrow> int \<Rightarrow> string option \<Rightarrow> string option
     \<Rightarrow> string list option \<Rightarrow> (string \<times> string) list option
     \<Rightarrow> ('c, 'j) world \<Rightarrow> (exn + tool_result) \<times> ('c, 'j) world" where
  "semantic_search_tool client query top_k namespace category tags date_range =
     try_except
       (semantic_search_body client query top_k namespace category tags date_range)
       (error_handler ''Error in semantic search'')"



subsection \<open>pinecone-stats and list-documents\<close>

text \<open>
  \<open>json.dumps\<close> of a value of the client is a parameter (\<open>dumps\<close>): it returns the
  text, or raises for a value it cannot serialise.
\<close>

definition pinecone_stats_body ::
  "('j \<Rightarrow> exn + string) \<Rightarrow> ('c, 'j) PineconeClient
     \<Rightarrow> ('c, 'j) world \<Rightarrow> (exn + tool_result) \<times> ('c, 'j) world" where
  "pinecone_stats_body dumps client w =
     (case invoke (stats client) Stats w of
        (Inl e, w') \<Rightarrow> (Inl e, w')
      | (Inr st, w') \<Rightarrow>
          (case dumps st of
             Inl e \<Rightarrow> (Inl e, w')
           | Inr t \<Rightarrow> (Inr (text_result t), w')))"

definition pinecone_stats_tool ::
  "('j \<Rightarrow> exn + string) \<Rightarrow> ('c, 'j) PineconeClient
     \<Rightarrow> ('c, 'j) world \<Rightarrow> (exn + tool_result) \<times> ('c, 'j) world" where
  "pinecone_stats_tool dumps client =
     try_except (pinecone_stats_body dumps client) (error_handler ''Error getting stats'')"

definition list_documents_body ::
  "('j \<Rightarrow> exn + string) \<Rightarrow> ('c, 'j) PineconeClient \<Rightarrow> string
     \<Rightarrow> ('c, 'j) world \<Rightarrow> (exn + tool_result) \<times> ('c, 'j) world" where
  "list_documents_body dumps client namespace w =
     (case invoke (list_records client (Some namespace)) (ListRecords (Some namespace)) w of
        (Inl e, w') \<Rightarrow> (Inl e, w')
      | (Inr results, w') \<Rightarrow>
          (case dumps results of
             Inl e \<Rightarrow> (Inl e, w')
           | Inr t \<Rightarrow> (Inr (text_result t), w')))"

definition list_documents_tool ::
  "('j \<Rightarrow> exn + string) \<Rightarrow> ('c, 'j) PineconeClient \<Rightarrow> string
     \<Rightarrow> ('c, 'j) world \<Rightarrow> (exn + tool_result) \<times> ('c, 'j) world" where
  "list_documents_tool dumps client namespace =
     try_except (list_documents_body dumps client namespace)
       (error_handler ''Error listing documents'')"

subsection \<open>read-document\<close>

text \<open>
  \<open>if not vector\<close> holds when \<open>record.vectors\<close> has no entry for the identifier;
  \<open>if metadata\<close> fails for an absent attribute and for an empty dictionary.
\<close>

definition metadata_lines :: "metadata \<Rightarrow> string list" where
  "metadata_lines md = map (\<lambda>(key, val). key @ '': '' @ py_str val) md"

definition read_document_body ::
  "('c, 'j) PineconeClient \<Rightarrow> string \<Rightarrow> string option
     \<Rightarrow> ('c, 'j) world \<Rightarrow> (exn + tool_result) \<times> ('c, 'j) world" where
  "read_document_body client document_id namespace w =
     (case invoke (fetch_records client [document_id] namespace)
                  (FetchRecords [document_id] namespace) w of
        (Inl e, w') \<Rightarrow> (Inl e, w')
      | (Inr record, w') \<Rightarrow>
          (case map_of (vectors record) document_id of
             None \<Rightarrow> (Inr (text_result (''Document '' @ document_id @ '' not found'')), w')
           | Some vector \<Rightarrow>
               (let md = (case vector_metadata vector of None \<Rightarrow> [] | Some d \<Rightarrow> d);
                    formatted_content =
                      [''Document ID: '' @ document_id, ''''] @
                      (if md \<noteq> [] then ''Metadata:'' # metadata_lines md else [])
                in (Inr (text_result (join_lines formatted_content)), w'))))"

definition read_document_tool ::
  "('c, 'j) PineconeClient \<Rightarrow> string \<Rightarrow> string option
     \<Rightarrow> ('c, 'j) world \<Rightarrow> (exn + tool_result) \<times> ('c, 'j) world" where
  "read_document_tool client document_id namespace =
     try_except (read_document_body client document_id namespace)
       (error_handler ''Error reading document'')"

subsection \<open>process-document\<close>

text \<open>
  The chunker (\<open>create_chunker(chunk_type="smart")\<close>, then \<open>chunk_document\<close>) is a
  parameter: it returns the list of chunks or raises. \<open>Chunk\<close> declares \<open>id\<close> and
  \<open>content\<close> as \<open>str\<close>, so \<open>not content or not chunk_id\<close> is the test for an empty
  string.

  Lines 133 to 150: the loop. \<open>embedded_chunks\<close> is the list built so far; an exception
  of \<open>generate_embeddings\<close> leaves the loop. \<open>PineconeRecord(...)\<close> builds the record
  from its four fields.
\<close>

fun embed_chunks ::
  "('c, 'j) PineconeClient \<Rightarrow> Chunk list \<Rightarrow> PineconeRecord list
     \<Rightarrow> ('c, 'j) world \<Rightarrow> (exn + PineconeRecord list) \<times> ('c, 'j) world" where
  "embed_chunks client [] embedded_chunks w = (Inr embedded_chunks, w)"
| "embed_chunks client (chunk # chunks) embedded_chunks w =
     (if chunk_content chunk = [] \<or> chunk_id chunk = []
      then embed_chunks client chunks embedded_chunks
             (w\<lparr>logged := logged w @ [LogWarning chunk]\<rparr>)
      else
        (case invoke (generate_embeddings client (chunk_content chunk))
                     (GenerateEmbeddings (chunk_content chunk)) w of
           (Inl e, w') \<Rightarrow> (Inl e, w')
         | (Inr emb, w') \<Rightarrow>
             embed_chunks client chunks
               (embedded_chunks @
                  [\<lparr>rec_id = chunk_id chunk, rec_embedding = emb,
                    rec_text = chunk_content chunk, rec_metadata = chunk_metadata chunk\<rparr>])
               w'))"

definition process_document_body ::
  "(string \<Rightarrow> string \<Rightarrow> metadata \<Rightarrow> exn + Chunk list) \<Rightarrow> ('c, 'j) PineconeClient
     \<Rightarrow> string \<Rightarrow> string \<Rightarrow> metadata \<Rightarrow> string option
     \<Rightarrow> ('c, 'j) world \<Rightarrow> (exn + tool_result) \<times> ('c, 'j) world" where
  "process_document_body chunk_document client document_id txt md namespace w =
     (case chunk_document document_id txt md of
        Inl e \<Rightarrow> (Inl e, w)
      | Inr chunks \<Rightarrow>
          (case embed_chunks client chunks [] w of
             (Inl e, w') \<Rightarrow> (Inl e, w')
           | (Inr embedded_chunks, w') \<Rightarrow>
               (if embedded_chunks = []
                then (Inr (text_result ''Error: No embedded chunks found''), w')
                else
                  (case invoke (upsert_records client embedded_chunks namespace)
                               (UpsertRecords embedded_chunks namespace) w' of
                     (Inl e, w'') \<Rightarrow> (Inl e, w'')
                   | (Inr u, w'') \<Rightarrow>
                       (Inr (text_result
                          (''Successfully processed document. The document ID is ''
                             @ document_id)), w'')))))"

definition process_document_tool ::
  "(string \<Rightarrow> string \<Rightarrow> metadata \<Rightarrow> exn + Chunk list) \<Rightarrow> ('c, 'j) PineconeClient
     \<Rightarrow> string \<Rightarrow> string \<Rightarrow> metadata \<Rightarrow> string option
     \<Rightarrow> ('c, 'j) world \<Rightarrow> (exn + tool_result) \<times> ('c, 'j) world" where
  "process_document_tool chunk_document client document_id txt md namespace =
     try_except (process_document_body chunk_document client document_id txt md namespace)
       (error_handler ''Error processing document'')"

section \<open>The resource endpoint of \<open>server.py\<close>\<close>

text \<open>
  \<open>get_vector_resource\<close> returns a \<open>str\<close>: the formatted text, or
  \<open>json.dumps({"error": msg}, indent=2)\<close>, which the model keeps as the message.
\<close>

datatype resource_result =
    Formatted string
  | ErrorJson string

text \<open>
  \<open>"\n".join(output)\<close> raises \<open>TypeError\<close> when an item is not a \<open>str\<close>. The only
  item that is not built by an f-string is \<open>metadata["text"]\<close>, the last one.
\<close>

definition join_error :: "nat \<Rightarrow> string \<Rightarrow> exn" where
  "join_error i t =
     Exn (''sequence item '' @ string_of_nat i @ '': expected str instance, '' @ t @ '' found'')"

definition join_output :: "string list \<Rightarrow> pyval option \<Rightarrow> exn + string" where
  "join_output output last_item =
     (case last_item of
        None \<Rightarrow> Inr (join_lines output)
      | Some (PStr s) \<Rightarrow> Inr (join_lines (output @ [s]))
      | Some (POther t r) \<Rightarrow> Inl (join_error (length output) t))"

definition format_text_content :: "VectorData \<Rightarrow> exn + string" where
  "format_text_content vector_data =
     (let md = (case vd_metadata vector_data of None \<Rightarrow> [] | Some d \<Rightarrow> d);
          output =
            (case map_of md ''title'' of None \<Rightarrow> [] | Some t \<Rightarrow> [''Title: '' @ py_str t]) @
            [''ID: '' @ (case vd_id vector_data of None \<Rightarrow> ''None'' | Some i \<Rightarrow> i)] @
            map (\<lambda>(key, val). key @ '': '' @ py_str val)
              (filter (\<lambda>(key, val). key \<notin> set [''title'', ''text'', ''content_type'']) md) @
            ['''']
      in join_output output (map_of md ''text''))"

text \<open>
  \<open>PineconeClient()\<close> is built inside the \<open>try\<close> of every call: \<open>new_client\<close> is the
  client, or the exception its constructor raises.
\<close>

definition get_vector_resource ::
  "(exn + ('c, 'j) PineconeClient) \<Rightarrow> string \<Rightarrow> ('c, 'j) world
     \<Rightarrow> resource_result \<times> ('c, 'j) world" where
  "get_vector_resource new_client vector_id w =
     (case new_client of
        Inl e \<Rightarrow> (ErrorJson (message e), w)
      | Inr pinecone_client \<Rightarrow>
          (case invoke (fetch_records pinecone_client [vector_id] None)
                       (FetchRecords [vector_id] None) w of
             (Inl e, w') \<Rightarrow> (ErrorJson (message e), w')
           | (Inr record, w') \<Rightarrow>
               (case records record of
                  None \<Rightarrow> (ErrorJson (''Vector not found: '' @ vector_id), w')
                | Some [] \<Rightarrow> (ErrorJson (''Vector not found: '' @ vector_id), w')
                | Some (vector_data # rest) \<Rightarrow>
                    (let md = (case vd_metadata vector_data of None \<Rightarrow> [] | Some d \<Rightarrow> d);
                         title_line =
                           (case map_of md ''title'' of
                              None \<Rightarrow> []
                            | Some t \<Rightarrow> [''Title: '' @ py_str t]);
                         id_line =
                           ''ID: '' @ (case vd_id vector_data of None \<Rightarrow> ''None'' | Some i \<Rightarrow> i);
                         field_lines =
                           map (\<lambda>(key, val). key @ '': '' @ py_str val)
                             (filter (\<lambda>(key, val).
                                key \<notin> set [''title'', ''text'', ''content_type'']) md);
                         output = title_line @ [id_line] @ field_lines @ ['''']
                     in case join_output output (map_of md ''text'') of
                          Inl e \<Rightarrow> (ErrorJson (message e), w')
                        | Inr t \<Rightarrow> (Formatted t, w')))))"

section \<open>Observing a run\<close>

text \<open>
  What a tool call did is read off the world it returns: the calls it added to the
  trace, among them the calls of the embedding client and of \<open>upsert_records\<close>, and the
  warnings it logged.
\<close>

definition new_calls :: "('c, 'j) world \<Rightarrow> ('c, 'j) world \<Rightarrow> 'j call_event list" where
  "new_calls w w' = drop (length (calls w)) (calls w')"

definition new_logged :: "('c, 'j) world \<Rightarrow> ('c, 'j) world \<Rightarrow> log_record list" where
  "new_logged w w' = drop (length (logged w)) (logged w')"

fun embedding_call :: "'j call_event \<Rightarrow> (string \<times> (exn + embedding)) option" where
  "embedding_call (GenerateEmbeddings t r) = Some (t, r)"
| "embedding_call (SearchRecords q k f im ns r) = None"
| "embedding_call (Stats r) = None"
| "embedding_call (FetchRecords ids ns r) = None"
| "embedding_call (UpsertRecords rs ns r) = None"
| "embedding_call (ListRecords ns r) = None"

definition embedding_calls :: "'j call_event list \<Rightarrow> (string \<times> (exn + embedding)) list" where
  "embedding_calls evs = List.map_filter embedding_call evs"

fun upsert_call :: "'j call_event \<Rightarrow> (PineconeRecord list \<times> string option \<times> (exn + unit)) option" where
  "upsert_call (UpsertRecords rs ns r) = Some (rs, ns, r)"
| "upsert_call (SearchRecords q k f im ns r) = None"
| "upsert_call (Stats r) = None"
| "upsert_call (FetchRecords ids ns r) = None"
| "upsert_call (GenerateEmbeddings t r) = None"
| "upsert_call (ListRecords ns r) = None"

definition upsert_calls ::
  "'j call_event list \<Rightarrow> (PineconeRecord list \<times> string option \<times> (exn + unit)) list" where
  "upsert_calls evs = List.map_filter upsert_call evs"

fun warned_chunk :: "log_record \<Rightarrow> Chunk option" where
  "warned_chunk (LogWarning c) = Some c"
| "warned_chunk (LogError m) = None"

definition warned_chunks :: "log_record list \<Rightarrow> Chunk list" where
  "warned_chunks ls = List.map_filter warned_chunk ls"

text \<open>
  The chunks the loop skips (line 139) and the chunks that survive, in the chunker's
  order; the record line 144 builds from a chunk and its embedding.
\<close>

definition skipped :: "Chunk list \<Rightarrow> Chunk list" where
  "skipped chunks = filter (\<lambda>c. chunk_content c = [] \<or> chunk_id c = []) chunks"

definition surviving :: "Chunk list \<Rightarrow> Chunk list" where
  "surviving chunks = filter (\<lambda>c. chunk_content c \<noteq> [] \<and> chunk_id c \<noteq> []) chunks"

definition record_of :: "Chunk \<Rightarrow> embedding \<Rightarrow> PineconeRecord" where
  "record_of c emb =
     \<lparr>rec_id = chunk_id c, rec_embedding = emb, rec_text = chunk_content c,
      rec_metadata = chunk_metadata c\<rparr>"

fun returned :: "(exn + 'a) list \<Rightarrow> 'a list" where
  "returned [] = []"
| "returned (Inr v # rs) = v # returned rs"
| "returned (Inl e # rs) = returned rs"

fun raised :: "(exn + 'a) list \<Rightarrow> exn list" where
  "raised [] = []"
| "raised (Inl e # rs) = e # raised rs"
| "raised (Inr v # rs) = raised rs"

section \<open>Concrete inputs\<close>

text \<open>
  A client over a store that counts its records. Its embedding service fails on the text
  \<open>boom\<close>; it holds one document, \<open>doc1\<close>, which \<open>fetch_records\<close> returns in both
  shapes.
\<close>

definition doc1_metadata :: metadata where
  "doc1_metadata =
     [(''title'', PStr ''Notes''), (''category'', PStr ''news''), (''text'', PStr ''hello'')]"

definition demo_client :: "(nat, string) PineconeClient" where
  "demo_client =
     \<lparr>search_records = (\<lambda>query top_k fs include_metadata namespace n.
         (Inr \<lparr>matches = Some []\<rparr>, n)),
      stats = (\<lambda>n. (Inr ''{}'', n)),
      fetch_records = (\<lambda>ids namespace n.
         (if ids = [''doc1'']
          then Inr \<lparr>vectors = [(''doc1'', \<lparr>vector_metadata = Some doc1_metadata\<rparr>)],
                    records = Some [\<lparr>vd_id = Some ''doc1'', vd_metadata = Some doc1_metadata\<rparr>]\<rparr>
          else Inr \<lparr>vectors = [], records = Some []\<rparr>, n)),
      generate_embeddings = (\<lambda>t n.
         (if t = ''boom'' then Inl (Exn ''embedding failed'') else Inr [1, 0], n)),
      upsert_records = (\<lambda>rs namespace n. (Inr (), n + length rs)),
      list_records = (\<lambda>namespace n. (Inr ''[]'', n))\<rparr>"

definition demo_world :: "(nat, string) world" where
  "demo_world = \<lparr>backend = 0, calls = [], logged = []\<rparr>"

definition chunk_a :: Chunk where
  "chunk_a = \<lparr>chunk_id = ''d-0'', chunk_content = ''alpha'', chunk_metadata = []\<rparr>"

definition chunk_b :: Chunk where
  "chunk_b = \<lparr>chunk_id = ''d-1'', chunk_content = ''beta'', chunk_metadata = []\<rparr>"

definition chunk_empty :: Chunk where
  "chunk_empty = \<lparr>chunk_id = ''d-2'', chunk_content = [], chunk_metadata = []\<rparr>"

definition chunk_boom :: Chunk where
  "chunk_boom = \<lparr>chunk_id = ''d-3'', chunk_content = ''boom'', chunk_metadata = []\<rparr>"

text \<open>
  The event of one call of \<open>generate_embeddings\<close>, from its argument and outcome, and
  the text of the success report of process-document.
\<close>

definition embed_event :: "string \<times> (exn + embedding) \<Rightarrow> 'j call_event" where
  "embed_event p = GenerateEmbeddings (fst p) (snd p)"

definition success_text :: "string \<Rightarrow> string" where
  "success_text document_id = ''Successfully processed document. The document ID is '' @ document_id"

text \<open>
  A client whose store is unreachable: every method but \<open>generate_embeddings\<close> raises.
\<close>

definition failing_client :: "(nat, string) PineconeClient" where
  "failing_client =
     \<lparr>search_records = (\<lambda>query top_k fs include_metadata namespace n.
         (Inl (Exn ''store unavailable''), n)),
      stats = (\<lambda>n. (Inl (Exn ''store unavailable''), n)),
      fetch_records = (\<lambda>ids namespace n. (Inl (Exn ''store unavailable''), n)),
      generate_embeddings = (\<lambda>t n. (Inr [1, 0], n)),
      upsert_records = (\<lambda>rs namespace n. (Inl (Exn ''store unavailable''), n)),
      list_records = (\<lambda>namespace n. (Inl (Exn ''store unavailable''), n))\<rparr>"

section \<open>The store's reading of a filter\<close>

text \<open>
  Modelled from the spec: the vector store that evaluates a filter is an external
  service, not in the source. The spec's data model gives the predicates a filter is made
  of: equality, set membership (the record's list meets the supplied list) and an
  inclusive range, joined by logical AND. A stored field is a scalar or a list of
  scalars; the order on scalars is a parameter (\<open>le\<close>).
\<close>

datatype field = Scalar string | Values "string list"

fun field_values :: "field \<Rightarrow> string list" where
  "field_values (Scalar v) = [v]"
| "field_values (Values vs) = vs"

definition satisfies :: "(string \<Rightarrow> string \<Rightarrow> bool) \<Rightarrow> filter_value \<Rightarrow> field option \<Rightarrow> bool" where
  "satisfies le fv f =
     (case fv of
        FEq c \<Rightarrow> f = Some (Scalar c)
      | FIn ts \<Rightarrow>
          (case f of
             None \<Rightarrow> False
           | Some x \<Rightarrow> set (field_values x) \<inter> set ts \<noteq> {})
      | FRange lo hi \<Rightarrow>
          (case f of
             None \<Rightarrow> False
           | Some (Scalar v) \<Rightarrow> le lo v \<and> le v hi
           | Some (Values vs) \<Rightarrow> False))"

definition store_matches ::
  "(string \<Rightarrow> string \<Rightarrow> bool) \<Rightarrow> filters \<Rightarrow> (string \<Rightarrow> field option) \<Rightarrow> bool" where
  "store_matches le fs stored = list_all (\<lambda>(key, fv). satisfies le fv (stored key)) fs"

text \<open>
  The predicate the spec describes for semantic-search, in the spec's words: category
  equal to the supplied one, tag list meeting the supplied tags, date within the supplied
  range, each only when the parameter is supplied. A parameter is supplied when it is
  given and not empty, and a date range when it has both bounds.
\<close>

definition spec_search_filter ::
  "(string \<Rightarrow> string \<Rightarrow> bool) \<Rightarrow> string option \<Rightarrow> string list option
     \<Rightarrow> (string \<times> string) list option \<Rightarrow> (string \<Rightarrow> field option) \<Rightarrow> bool" where
  "spec_search_filter le category tags date_range stored =
     ((case category of
         None \<Rightarrow> True
       | Some c \<Rightarrow> c \<noteq> [] \<longrightarrow> stored ''category'' = Some (Scalar c))
      \<and> (case tags of
         None \<Rightarrow> True
       | Some ts \<Rightarrow>
           ts \<noteq> [] \<longrightarrow> (\<exists>x. stored ''tags'' = Some x \<and> set (field_values x) \<inter> set ts \<noteq> {}))
      \<and> (case date_range of
         None \<Rightarrow> True
       | Some d \<Rightarrow>
           (case (map_of d ''start'', map_of d ''end'') of
              (Some lo, Some hi) \<Rightarrow> (\<exists>v. stored ''date'' = Some (Scalar v) \<and> le lo v \<and> le v hi)
            | _ \<Rightarrow> True)))"

text \<open>Python's order on \<open>str\<close> (by code point), and two stored records.\<close>

definition string_le :: "string \<Rightarrow> string \<Rightarrow> bool" where
  "string_le a b = lexordp_eq (map of_char a :: nat list) (map of_char b)"

definition stored_news :: "string \<Rightarrow> field option" where
  "stored_news = map_of [(''category'', Scalar ''news''), (''tags'', Values [''b'', ''c'']),
                         (''date'', Scalar ''2024-03-01'')]"

definition stored_other :: "string \<Rightarrow> field option" where
  "stored_other = map_of [(''category'', Scalar ''news''), (''tags'', Values [''c'']),
                          (''date'', Scalar ''2024-03-01'')]"

section \<open>Properties\<close>

subsection \<open>The filter of semantic-search\<close>

lemma filters_empty_category:
  "semantic_search_filters (Some []) tags date_range
     = semantic_search_filters None tags date_range"
  by (simp add: semantic_search_filters_def)

lemma filters_empty_tags:
  "semantic_search_filters category (Some []) date_range
     = semantic_search_filters category None date_range"
  by (simp add: semantic_search_filters_def)

lemma filters_partial_range:
  "map_of d ''start'' = None \<or> map_of d ''end'' = None \<Longrightarrow>
   semantic_search_filters category tags (Some d) = semantic_search_filters category tags None"
  by (auto simp add: semantic_search_filters_def split: option.splits)

lemma tool_filters_cong:
  "semantic_search_filters category tags date_range
     = semantic_search_filters category' tags' date_range' \<Longrightarrow>
   semantic_search_tool client query top_k namespace category tags date_range w
     = semantic_search_tool client query top_k namespace category' tags' date_range' w"
  by (simp add: semantic_search_tool_def try_except_def semantic_search_body_def)

text \<open>
  C10. In semantic-search, an empty list of tags and an empty string as category are
  treated as the omitted parameter: the filter built is the same, and so is the whole
  call (the filter passed to \<open>search_records\<close>, the result, the trace).
\<close>

theorem empty_category_or_tags_as_omitted:
  "semantic_search_filters (Some []) tags date_range
       = semantic_search_filters None tags date_range
   \<and> semantic_search_filters category (Some []) date_range
       = semantic_search_filters category None date_range
   \<and> semantic_search_tool client query top_k namespace (Some []) tags date_range w
       = semantic_search_tool client query top_k namespace None tags date_range w
   \<and> semantic_search_tool client query top_k namespace category (Some []) date_range w
       = semantic_search_tool client query top_k namespace category None date_range w"
  using filters_empty_category filters_empty_tags tool_filters_cong by metis

text \<open>
  C5. In semantic-search, a date range that lacks \<open>start\<close> or lacks \<open>end\<close> gives the
  filter that no date range gives, and the call as a whole is the call without a date
  range: nothing of the range is applied and nothing is raised for it.
\<close>

theorem one_sided_date_range_ignored:
  assumes "map_of d ''start'' = None \<or> map_of d ''end'' = None"
  shows "semantic_search_filters category tags (Some d)
           = semantic_search_filters category tags None
   \<and> semantic_search_tool client query top_k namespace category tags (Some d) w
       = semantic_search_tool client query top_k namespace category tags None w"
  using filters_partial_range [OF assms] tool_filters_cong by metis

theorem one_sided_date_range_ignored_witness:
  "semantic_search_filters (Some ''news'') None (Some [(''start'', ''2024-01-01'')])
     = semantic_search_filters (Some ''news'') None None
   \<and> semantic_search_filters (Some ''news'') None (Some [(''start'', ''2024-01-01'')])
     = [(''category'', FEq ''news'')]
   \<and> semantic_search_tool demo_client ''q'' 10 None (Some ''news'') None
        (Some [(''start'', ''2024-01-01'')]) demo_world
     = semantic_search_tool demo_client ''q'' 10 None (Some ''news'') None None demo_world"
  using one_sided_date_range_ignored
    [of "[(''start'', ''2024-01-01'')]" "Some ''news''" None demo_client "''q''" 10 None demo_world]
  by (simp add: semantic_search_filters_def)

subsection \<open>The loop of process-document\<close>

lemma invoke_calls:
  "calls (snd (invoke method event w)) = calls w @ [event (fst (method (backend w)))]"
  by (simp add: invoke_def split: prod.splits)

lemma invoke_fst: "fst (invoke method event w) = fst (method (backend w))"
  by (simp add: invoke_def split: prod.splits)

lemma invoke_logged: "logged (snd (invoke method event w)) = logged w"
  by (simp add: invoke_def split: prod.splits)

lemma embed_chunks_run:
  "\<exists>E. calls (snd (embed_chunks cl cs acc w)) = calls w @ map embed_event E
     \<and> map fst E = take (length E) (map chunk_content (surviving cs))
     \<and> (case fst (embed_chunks cl cs acc w) of
          Inr recs \<Rightarrow> raised (map snd E) = [] \<and> length E = length (surviving cs)
                    \<and> recs = acc @ map2 record_of (surviving cs) (returned (map snd E))
                    \<and> logged (snd (embed_chunks cl cs acc w))
                        = logged w @ map LogWarning (skipped cs)
        | Inl e \<Rightarrow> raised (map snd E) = [e])"
proof (induction cs arbitrary: acc w)
  case Nil
  show ?case by (rule exI [of _ "[]"]) (simp add: surviving_def skipped_def)
next
  case (Cons c cs)
  show ?case
  proof (cases "chunk_content c = [] \<or> chunk_id c = []")
    case True
    from Cons.IH [of acc "w\<lparr>logged := logged w @ [LogWarning c]\<rparr>"]
    obtain E where E: "calls (snd (embed_chunks cl cs acc (w\<lparr>logged := logged w @ [LogWarning c]\<rparr>))) = calls w @ map embed_event E"
      "map fst E = take (length E) (map chunk_content (surviving cs))"
      "(case fst (embed_chunks cl cs acc (w\<lparr>logged := logged w @ [LogWarning c]\<rparr>)) of
          Inr recs \<Rightarrow> raised (map snd E) = [] \<and> length E = length (surviving cs)
                    \<and> recs = acc @ map2 record_of (surviving cs) (returned (map snd E))
                    \<and> logged (snd (embed_chunks cl cs acc (w\<lparr>logged := logged w @ [LogWarning c]\<rparr>)))
                        = logged (w\<lparr>logged := logged w @ [LogWarning c]\<rparr>) @ map LogWarning (skipped cs)
        | Inl e \<Rightarrow> raised (map snd E) = [e])"
      by auto
    show ?thesis
      apply (rule exI [of _ E])
      using True E by (auto simp add: surviving_def skipped_def split: sum.splits)
  next
    case False
    obtain r w1 where inv: "invoke (generate_embeddings cl (chunk_content c))
                     (GenerateEmbeddings (chunk_content c)) w = (r, w1)"
      by (cases "invoke (generate_embeddings cl (chunk_content c))
                     (GenerateEmbeddings (chunk_content c)) w") auto
    have c1: "calls w1 = calls w @ [GenerateEmbeddings (chunk_content c) r]"
      using invoke_calls [of "generate_embeddings cl (chunk_content c)" "GenerateEmbeddings (chunk_content c)" w]
        invoke_fst [of "generate_embeddings cl (chunk_content c)" "GenerateEmbeddings (chunk_content c)" w]
        inv by simp
    have l1: "logged w1 = logged w"
      using invoke_logged [of "generate_embeddings cl (chunk_content c)" "GenerateEmbeddings (chunk_content c)" w] inv by simp
    show ?thesis
    proof (cases r)
      case (Inl e)
      show ?thesis
        apply (rule exI [of _ "[(chunk_content c, Inl e)]"])
        using False inv Inl c1 by (simp add: embed_event_def surviving_def)
    next
      case (Inr emb)
      let ?acc = "acc @ [\<lparr>rec_id = chunk_id c, rec_embedding = emb,
                    rec_text = chunk_content c, rec_metadata = chunk_metadata c\<rparr>]"
      from Cons.IH [of ?acc w1]
      obtain E where E: "calls (snd (embed_chunks cl cs ?acc w1)) = calls w1 @ map embed_event E"
        "map fst E = take (length E) (map chunk_content (surviving cs))"
        "(case fst (embed_chunks cl cs ?acc w1) of
          Inr recs \<Rightarrow> raised (map snd E) = [] \<and> length E = length (surviving cs)
                    \<and> recs = ?acc @ map2 record_of (surviving cs) (returned (map snd E))
                    \<and> logged (snd (embed_chunks cl cs ?acc w1))
                        = logged w1 @ map LogWarning (skipped cs)
        | Inl e \<Rightarrow> raised (map snd E) = [e])"
        by auto
      show ?thesis
        apply (rule exI [of _ "(chunk_content c, Inr emb) # E"])
        using False inv Inr c1 l1 E
        by (auto simp add: embed_event_def surviving_def skipped_def record_of_def split: sum.splits)
    qed
  qed
qed

lemma embedding_calls_embed_events [simp]: "embedding_calls (map embed_event E) = E"
  by (induction E) (simp_all add: embedding_calls_def List.map_filter_simps embed_event_def)

lemma upsert_calls_embed_events [simp]: "upsert_calls (map embed_event E) = []"
  by (induction E) (simp_all add: upsert_calls_def List.map_filter_simps embed_event_def)

lemma embedding_calls_append:
  "embedding_calls (xs @ ys) = embedding_calls xs @ embedding_calls ys"
  by (simp add: embedding_calls_def List.map_filter_def)

lemma upsert_calls_append:
  "upsert_calls (xs @ ys) = upsert_calls xs @ upsert_calls ys"
  by (simp add: upsert_calls_def List.map_filter_def)

lemma new_calls_append: "calls w' = calls w @ evs \<Longrightarrow> new_calls w w' = evs"
  by (simp add: new_calls_def)

lemma warned_chunks_warnings [simp]: "warned_chunks (map LogWarning cs) = cs"
  by (induction cs) (simp_all add: warned_chunks_def List.map_filter_simps)

lemma warned_chunks_append:
  "warned_chunks (xs @ ys) = warned_chunks xs @ warned_chunks ys"
  by (simp add: warned_chunks_def List.map_filter_def)

lemma warned_chunks_error [simp]: "warned_chunks [LogError msg] = []"
  by (simp add: warned_chunks_def List.map_filter_simps)

lemma length_returned: "raised rs = [] \<Longrightarrow> length (returned rs) = length rs"
  by (induction rs rule: returned.induct) simp_all

lemma length_surviving: "length (surviving cs) = length cs - length (skipped cs)"
proof -
  have "length (filter (\<lambda>c. chunk_content c = [] \<or> chunk_id c = []) cs)
          + length (filter (\<lambda>c. \<not> (chunk_content c = [] \<or> chunk_id c = [])) cs) = length cs"
    by (rule sum_length_filter_compl)
  then show ?thesis by (simp add: surviving_def skipped_def)
qed

lemma process_document_run:
  assumes ch: "chunk_document d t m = Inr chunks"
  shows "\<exists>E. embedding_calls (new_calls w (snd (process_document_tool chunk_document cl d t m ns w))) = E
    \<and> map fst E = take (length E) (map chunk_content (surviving chunks))
    \<and> (case raised (map snd E) of
         [] \<Rightarrow> length E = length (surviving chunks)
             \<and> warned_chunks (new_logged w (snd (process_document_tool chunk_document cl d t m ns w)))
                  = skipped chunks
             \<and> (if surviving chunks = []
                 then upsert_calls (new_calls w (snd (process_document_tool chunk_document cl d t m ns w))) = []
                      \<and> fst (process_document_tool chunk_document cl d t m ns w)
                           = Inr (text_result ''Error: No embedded chunks found'')
                 else (\<exists>r. upsert_calls (new_calls w (snd (process_document_tool chunk_document cl d t m ns w)))
                           = [(map2 record_of (surviving chunks) (returned (map snd E)), ns, r)]
                       \<and> fst (process_document_tool chunk_document cl d t m ns w)
                           = Inr (text_result (case r of Inl e \<Rightarrow> ''Error: '' @ message e
                                                | Inr u \<Rightarrow> success_text d))))
       | e # es \<Rightarrow> es = []
             \<and> upsert_calls (new_calls w (snd (process_document_tool chunk_document cl d t m ns w))) = []
             \<and> fst (process_document_tool chunk_document cl d t m ns w)
                 = Inr (text_result (''Error: '' @ message e)))"
proof -
  obtain r w1 where run: "embed_chunks cl chunks [] w = (r, w1)"
    by (cases "embed_chunks cl chunks [] w") auto
  have "\<exists>E. calls w1 = calls w @ map embed_event E
    \<and> map fst E = take (length E) (map chunk_content (surviving chunks))
    \<and> (case r of
          Inr recs \<Rightarrow> raised (map snd E) = [] \<and> length E = length (surviving chunks)
                    \<and> recs = map2 record_of (surviving chunks) (returned (map snd E))
                    \<and> logged w1 = logged w @ map LogWarning (skipped chunks)
        | Inl e \<Rightarrow> raised (map snd E) = [e])"
    using embed_chunks_run [of cl chunks "[]" w] run by (cases r) simp_all
  then obtain E where c1: "calls w1 = calls w @ map embed_event E"
    and args: "map fst E = take (length E) (map chunk_content (surviving chunks))"
    and out: "(case r of
          Inr recs \<Rightarrow> raised (map snd E) = [] \<and> length E = length (surviving chunks)
                    \<and> recs = map2 record_of (surviving chunks) (returned (map snd E))
                    \<and> logged w1 = logged w @ map LogWarning (skipped chunks)
        | Inl e \<Rightarrow> raised (map snd E) = [e])"
    by blast
  show ?thesis
  proof (cases r)
    case (Inl e)
    have tool: "process_document_tool chunk_document cl d t m ns w
        = (Inr (text_result (''Error: '' @ message e)),
           w1\<lparr>logged := logged w1 @ [LogError (''Error processing document'' @ '': '' @ message e)]\<rparr>)"
      using ch run Inl
      by (simp add: process_document_tool_def try_except_def process_document_body_def error_handler_def)
    have nc: "new_calls w (snd (process_document_tool chunk_document cl d t m ns w)) = map embed_event E"
      using tool c1 by (simp add: new_calls_append)
    show ?thesis
      using tool nc args out Inl by simp
  next
    case (Inr recs)
    from out Inr have nr: "raised (map snd E) = []" and len: "length E = length (surviving chunks)"
      and recs: "recs = map2 record_of (surviving chunks) (returned (map snd E))"
      and lg: "logged w1 = logged w @ map LogWarning (skipped chunks)"
      by simp_all
    have lenr: "length (returned (map snd E)) = length (surviving chunks)"
      using length_returned [OF nr] len by simp
    show ?thesis
    proof (cases "surviving chunks = []")
      case True
      then have r0: "recs = []" using recs by simp
      have e0: "E = []" using len True by simp
      have tool: "process_document_tool chunk_document cl d t m ns w
          = (Inr (text_result ''Error: No embedded chunks found''), w1)"
        using ch run Inr r0
        by (simp add: process_document_tool_def try_except_def process_document_body_def)
      have nc: "new_calls w (snd (process_document_tool chunk_document cl d t m ns w)) = []"
        using tool c1 e0 by (simp add: new_calls_def)
      have nl: "new_logged w (snd (process_document_tool chunk_document cl d t m ns w))
                  = map LogWarning (skipped chunks)"
        using tool lg by (simp add: new_logged_def)
      show ?thesis
        using tool nc nl True e0 by (simp add: embedding_calls_def upsert_calls_def List.map_filter_simps)
    next
      case False
      then have ne: "recs \<noteq> []" using recs lenr by (cases "surviving chunks"; cases "returned (map snd E)") auto
      obtain u w2 where up: "invoke (upsert_records cl recs ns) (UpsertRecords recs ns) w1 = (u, w2)"
        by (cases "invoke (upsert_records cl recs ns) (UpsertRecords recs ns) w1") auto
      have c2: "calls w2 = calls w1 @ [UpsertRecords recs ns u]"
        using invoke_calls [of "upsert_records cl recs ns" "UpsertRecords recs ns" w1]
          invoke_fst [of "upsert_records cl recs ns" "UpsertRecords recs ns" w1] up by simp
      have l2: "logged w2 = logged w1"
        using invoke_logged [of "upsert_records cl recs ns" "UpsertRecords recs ns" w1] up by simp
      have tool: "process_document_tool chunk_document cl d t m ns w
          = (case u of
               Inl e \<Rightarrow> (Inr (text_result (''Error: '' @ message e)),
                  w2\<lparr>logged := logged w2 @ [LogError (''Error processing document'' @ '': '' @ message e)]\<rparr>)
             | Inr x \<Rightarrow> (Inr (text_result (success_text d)), w2))"
        using ch run Inr ne up
        by (simp add: process_document_tool_def try_except_def process_document_body_def
              error_handler_def success_text_def split: sum.splits)
      have nc: "new_calls w (snd (process_document_tool chunk_document cl d t m ns w))
                  = map embed_event E @ [UpsertRecords recs ns u]"
        using tool c1 c2 by (cases u) (simp_all add: new_calls_append)
      have nl: "warned_chunks (new_logged w (snd (process_document_tool chunk_document cl d t m ns w)))
                  = skipped chunks"
        using tool lg l2 by (cases u) (simp_all add: new_logged_def warned_chunks_append)
      have res: "fst (process_document_tool chunk_document cl d t m ns w)
                  = Inr (text_result (case u of Inl e \<Rightarrow> ''Error: '' @ message e | Inr x \<Rightarrow> success_text d))"
        using tool by (cases u) simp_all
      have ec: "embedding_calls (map embed_event E @ [UpsertRecords recs ns u]) = E"
        by (simp add: embedding_calls_append) (simp add: embedding_calls_def List.map_filter_simps)
      have uc: "upsert_calls (map embed_event E @ [UpsertRecords recs ns u]) = [(recs, ns, u)]"
        by (simp add: upsert_calls_append) (simp add: upsert_calls_def List.map_filter_simps)
      have ecs: "embedding_calls (new_calls w (snd (process_document_tool chunk_document cl d t m ns w))) = E"
        using nc ec by simp
      have ucs: "upsert_calls (new_calls w (snd (process_document_tool chunk_document cl d t m ns w)))
                   = [(map2 record_of (surviving chunks) (returned (map snd E)), ns, u)]"
        using nc uc recs by simp
      show ?thesis
        using ecs ucs nl res args nr len False by simp
    qed
  qed
qed

subsection \<open>process-document\<close>

lemma process_document_chunker_raises:
  "chunk_document d t m = Inl e \<Longrightarrow>
   process_document_tool chunk_document cl d t m ns w
     = (Inr (text_result (''Error: '' @ message e)),
        w\<lparr>logged := logged w @ [LogError (''Error processing document: '' @ message e)]\<rparr>)"
  by (simp add: process_document_tool_def try_except_def process_document_body_def error_handler_def)



lemmas demo_run_defs =
  process_document_tool_def try_except_def process_document_body_def error_handler_def
  invoke_def demo_client_def demo_world_def chunk_a_def chunk_b_def chunk_empty_def
  chunk_boom_def new_calls_def new_logged_def upsert_calls_def embedding_calls_def
  warned_chunks_def text_result_def record_of_def surviving_def
  skipped_def


text \<open>
  C7, as amended. In an ingestion whose embedding calls all succeed, every chunk with
  empty content or empty identifier is skipped with a warning and raises nothing, the
  remaining chunks are all embedded, and the number of records passed to
  \<open>upsert_records\<close> is the number of chunks produced minus the number of chunks skipped.
  What the ingestion then returns: the success report when a chunk survives and the
  store accepts the batch; \<open>Error: No embedded chunks found\<close> when every chunk was
  skipped; the store's error when it refuses the batch.
\<close>

theorem invalid_chunks_skipped:
  assumes ch: "chunk_document d t m = Inr chunks"
    and run: "process_document_tool chunk_document cl d t m ns w = (res, w')"
    and ok: "raised (map snd (embedding_calls (new_calls w w'))) = []"
  shows "warned_chunks (new_logged w w') = skipped chunks
    \<and> map fst (embedding_calls (new_calls w w')) = map chunk_content (surviving chunks)
    \<and> sum_list (map (\<lambda>u. length (fst u)) (upsert_calls (new_calls w w')))
        = length chunks - length (skipped chunks)
    \<and> (surviving chunks \<noteq> [] \<and> raised (map (\<lambda>u. snd (snd u)) (upsert_calls (new_calls w w'))) = []
        \<longrightarrow> res = Inr (text_result
              (''Successfully processed document. The document ID is '' @ d)))
    \<and> (surviving chunks = []
        \<longrightarrow> upsert_calls (new_calls w w') = []
          \<and> res = Inr (text_result ''Error: No embedded chunks found''))
    \<and> (\<forall>e \<in> set (raised (map (\<lambda>u. snd (snd u)) (upsert_calls (new_calls w w')))).
          res = Inr (text_result (''Error: '' @ message e)))"
proof -
  define E where "E = embedding_calls (new_calls w w')"
  define U where "U = upsert_calls (new_calls w w')"
  have w': "w' = snd (process_document_tool chunk_document cl d t m ns w)"
    and res: "res = fst (process_document_tool chunk_document cl d t m ns w)"
    using run by simp_all
  from process_document_run [where chunk_document=chunk_document and d=d and t=t and m=m and w=w and cl=cl and ns=ns, OF ch]
  have char: "map fst E = take (length E) (map chunk_content (surviving chunks))
    \<and> (case raised (map snd E) of
         [] \<Rightarrow> length E = length (surviving chunks)
             \<and> warned_chunks (new_logged w w') = skipped chunks
             \<and> (if surviving chunks = []
                 then U = [] \<and> res = Inr (text_result ''Error: No embedded chunks found'')
                 else (\<exists>r. U = [(map2 record_of (surviving chunks) (returned (map snd E)), ns, r)]
                       \<and> res = Inr (text_result (case r of Inl e \<Rightarrow> ''Error: '' @ message e
                                                | Inr u \<Rightarrow> success_text d))))
       | e # es \<Rightarrow> es = [] \<and> U = [] \<and> res = Inr (text_result (''Error: '' @ message e)))"
    unfolding w' res E_def U_def by simp
  have nr: "raised (map snd E) = []" using ok by (simp add: E_def)
  with char have len: "length E = length (surviving chunks)"
    and args: "map fst E = take (length E) (map chunk_content (surviving chunks))"
    and warn: "warned_chunks (new_logged w w') = skipped chunks"
    and up: "if surviving chunks = []
                 then U = [] \<and> res = Inr (text_result ''Error: No embedded chunks found'')
                 else (\<exists>r. U = [(map2 record_of (surviving chunks) (returned (map snd E)), ns, r)]
                       \<and> res = Inr (text_result (case r of Inl e \<Rightarrow> ''Error: '' @ message e
                                                | Inr u \<Rightarrow> success_text d)))"
    by simp_all
  have lenr: "length (returned (map snd E)) = length (surviving chunks)"
    using length_returned [OF nr] len by simp
  have a: "map fst E = map chunk_content (surviving chunks)" using args len by simp
  have b: "sum_list (map (\<lambda>u. length (fst u)) U) = length chunks - length (skipped chunks)"
  proof (cases "surviving chunks = []")
    case True
    with up have "U = []" by simp
    moreover have "length chunks - length (skipped chunks) = 0"
      using length_surviving [of chunks] True by simp
    ultimately show ?thesis by simp
  next
    case False
    with up obtain r where "U = [(map2 record_of (surviving chunks) (returned (map snd E)), ns, r)]"
      by auto
    then show ?thesis using lenr length_surviving [of chunks] by simp
  qed
  have c: "surviving chunks \<noteq> [] \<and> raised (map (\<lambda>u. snd (snd u)) U) = []
        \<longrightarrow> res = Inr (text_result (''Successfully processed document. The document ID is '' @ d))"
  proof (intro impI, elim conjE)
    assume ne: "surviving chunks \<noteq> []" and uok: "raised (map (\<lambda>u. snd (snd u)) U) = []"
    from ne up obtain r where u: "U = [(map2 record_of (surviving chunks) (returned (map snd E)), ns, r)]"
      and r: "res = Inr (text_result (case r of Inl e \<Rightarrow> ''Error: '' @ message e
                                                | Inr u \<Rightarrow> success_text d))"
      by auto
    from uok u obtain x where "r = Inr x" by (cases r) simp_all
    with r show "res = Inr (text_result (''Successfully processed document. The document ID is '' @ d))"
      by (simp add: success_text_def)
  qed
  have dd: "surviving chunks = []
        \<longrightarrow> U = [] \<and> res = Inr (text_result ''Error: No embedded chunks found'')"
    using up by simp
  have ee: "\<forall>e \<in> set (raised (map (\<lambda>u. snd (snd u)) U)).
          res = Inr (text_result (''Error: '' @ message e))"
  proof (cases "surviving chunks = []")
    case True
    with up have "U = []" by simp
    then show ?thesis by simp
  next
    case False
    with up obtain r where u: "U = [(map2 record_of (surviving chunks) (returned (map snd E)), ns, r)]"
      and r: "res = Inr (text_result (case r of Inl e \<Rightarrow> ''Error: '' @ message e
                                                | Inr u \<Rightarrow> success_text d))"
      by auto
    show ?thesis using u r by (cases r) simp_all
  qed
  show ?thesis using warn a b c dd ee by (simp add: E_def U_def)
qed

theorem invalid_chunks_skipped_witness:
  "warned_chunks (new_logged demo_world (snd (process_document_tool
       (\<lambda>d t m. Inr [chunk_a, chunk_empty, chunk_b]) demo_client ''d'' ''alpha beta'' [] None
       demo_world))) = [chunk_empty]
   \<and> map fst (embedding_calls (new_calls demo_world (snd (process_document_tool
       (\<lambda>d t m. Inr [chunk_a, chunk_empty, chunk_b]) demo_client ''d'' ''alpha beta'' [] None
       demo_world)))) = [''alpha'', ''beta'']
   \<and> sum_list (map (\<lambda>u. length (fst u)) (upsert_calls (new_calls demo_world
       (snd (process_document_tool
       (\<lambda>d t m. Inr [chunk_a, chunk_empty, chunk_b]) demo_client ''d'' ''alpha beta'' [] None
       demo_world))))) = 2
   \<and> fst (process_document_tool
       (\<lambda>d t m. Inr [chunk_a, chunk_empty, chunk_b]) demo_client ''d'' ''alpha beta'' [] None
       demo_world) = Inr (text_result ''Successfully processed document. The document ID is d'')
   \<and> fst (process_document_tool
       (\<lambda>d t m. Inr [chunk_empty]) demo_client ''d'' [] [] None demo_world)
       = Inr (text_result ''Error: No embedded chunks found'')
   \<and> warned_chunks (new_logged demo_world (snd (process_document_tool
       (\<lambda>d t m. Inr [chunk_a, chunk_empty]) failing_client ''d'' ''alpha'' [] None
       demo_world))) = [chunk_empty]
   \<and> fst (process_document_tool
       (\<lambda>d t m. Inr [chunk_a, chunk_empty]) failing_client ''d'' ''alpha'' [] None demo_world)
       = Inr (text_result ''Error: store unavailable'')"
  using invalid_chunks_skipped
    [where chunk_document = "\<lambda>d t m. Inr [chunk_a, chunk_empty, chunk_b]" and d = "''d''"
       and t = "''alpha beta''" and m = "[]" and chunks = "[chunk_a, chunk_empty, chunk_b]"
       and cl = demo_client and ns = None and w = demo_world, OF refl surjective_pairing]
    invalid_chunks_skipped
    [where chunk_document = "\<lambda>d t m. Inr [chunk_empty]" and d = "''d''"
       and t = "[]" and m = "[]" and chunks = "[chunk_empty]"
       and cl = demo_client and ns = None and w = demo_world, OF refl surjective_pairing]
    invalid_chunks_skipped
    [where chunk_document = "\<lambda>d t m. Inr [chunk_a, chunk_empty]" and d = "''d''"
       and t = "''alpha''" and m = "[]" and chunks = "[chunk_a, chunk_empty]"
       and cl = failing_client and ns = None and w = demo_world, OF refl surjective_pairing]
  by (simp add: demo_run_defs failing_client_def)

text \<open>
  C7, as stated, fails. When the only chunk is empty it is skipped with a warning and the
  ingestion returns an error. When the embedding of an earlier chunk fails, the loop is
  left before the empty chunk is reached: no warning is recorded for it and no record is
  upserted, where the chunks produced minus the chunk to skip are two.
\<close>

theorem skipped_chunk_without_success:
  "process_document_tool (\<lambda>d t m. Inr [chunk_empty]) demo_client ''d'' [] [] None demo_world
     = (Inr (text_result ''Error: No embedded chunks found''),
        demo_world\<lparr>logged := [LogWarning chunk_empty]\<rparr>)
   \<and> fst (process_document_tool (\<lambda>d t m. Inr [chunk_a, chunk_boom, chunk_empty]) demo_client
          ''d'' ''alpha boom'' [] None demo_world)
     = Inr (text_result ''Error: embedding failed'')
   \<and> warned_chunks (logged (snd (process_document_tool
          (\<lambda>d t m. Inr [chunk_a, chunk_boom, chunk_empty]) demo_client
          ''d'' ''alpha boom'' [] None demo_world))) = []
   \<and> upsert_calls (calls (snd (process_document_tool
          (\<lambda>d t m. Inr [chunk_a, chunk_boom, chunk_empty]) demo_client
          ''d'' ''alpha boom'' [] None demo_world))) = []
   \<and> length [chunk_a, chunk_boom, chunk_empty]
        - length (skipped [chunk_a, chunk_boom, chunk_empty]) = 2"
  by (simp add: demo_run_defs)

text \<open>
  C4, as amended. When process-document has written records (a call of
  \<open>upsert_records\<close> returned), the report is the fixed sentence followed by the
  document id. The number of records written is not part of it.
\<close>

theorem success_report_names_document_only:
  assumes run: "process_document_tool chunk_document cl d t m ns w = (res, w')"
    and up: "(recs, ns', Inr ()) \<in> set (upsert_calls (new_calls w w'))"
  shows "res = Inr (text_result (''Successfully processed document. The document ID is '' @ d))"
proof (cases "chunk_document d t m")
  case (Inl e)
  from process_document_chunker_raises [where chunk_document=chunk_document and d=d and t=t and m=m and cl=cl and ns=ns and w=w, OF Inl] run
  have "new_calls w w' = []" by (auto simp add: new_calls_def)
  with up show ?thesis by (simp add: upsert_calls_def)
next
  case (Inr chunks)
  define E where "E = embedding_calls (new_calls w w')"
  define U where "U = upsert_calls (new_calls w w')"
  have w': "w' = snd (process_document_tool chunk_document cl d t m ns w)"
    and res: "res = fst (process_document_tool chunk_document cl d t m ns w)"
    using run by simp_all
  from process_document_run [where chunk_document=chunk_document and d=d and t=t and m=m and w=w and cl=cl and ns=ns, OF Inr]
  have char: "(case raised (map snd E) of
         [] \<Rightarrow> length E = length (surviving chunks)
             \<and> warned_chunks (new_logged w w') = skipped chunks
             \<and> (if surviving chunks = []
                 then U = [] \<and> res = Inr (text_result ''Error: No embedded chunks found'')
                 else (\<exists>r. U = [(map2 record_of (surviving chunks) (returned (map snd E)), ns, r)]
                       \<and> res = Inr (text_result (case r of Inl e \<Rightarrow> ''Error: '' @ message e
                                                | Inr u \<Rightarrow> success_text d))))
       | e # es \<Rightarrow> es = [] \<and> U = [] \<and> res = Inr (text_result (''Error: '' @ message e)))"
    unfolding w' res E_def U_def by simp
  have inU: "(recs, ns', Inr ()) \<in> set U" using up by (simp add: U_def)
  show ?thesis
  proof (cases "raised (map snd E)")
    case Nil
    show ?thesis
    proof (cases "surviving chunks = []")
      case True
      with char Nil inU show ?thesis by simp
    next
      case False
      with char Nil obtain r where u: "U = [(map2 record_of (surviving chunks) (returned (map snd E)), ns, r)]"
        and r: "res = Inr (text_result (case r of Inl e \<Rightarrow> ''Error: '' @ message e
                                                | Inr u \<Rightarrow> success_text d))"
        by auto
      from inU u have "r = Inr ()" by simp
      with r show ?thesis by (simp add: success_text_def)
    qed
  next
    case (Cons e es)
    with char inU show ?thesis by simp
  qed
qed

theorem success_report_names_document_only_witness:
  "fst (process_document_tool (\<lambda>d t m. Inr [chunk_a, chunk_b]) demo_client ''d'' ''alpha beta''
          [] None demo_world)
     = Inr (text_result ''Successfully processed document. The document ID is d'')"
  using success_report_names_document_only
    [where chunk_document = "\<lambda>d t m. Inr [chunk_a, chunk_b]" and d = "''d''"
       and t = "''alpha beta''" and m = "[]" and cl = demo_client and ns = None
       and w = demo_world and recs = "[record_of chunk_a [1, 0], record_of chunk_b [1, 0]]"
       and ns' = None, OF surjective_pairing]
  by (simp add: demo_run_defs)

text \<open>
  C4, as stated, fails: an ingestion that writes two records and an ingestion that
  writes one return the same report.
\<close>

theorem success_report_omits_record_count:
  "fst (process_document_tool (\<lambda>d t m. Inr [chunk_a, chunk_b]) demo_client ''d'' ''alpha beta''
          [] None demo_world)
     = Inr (text_result ''Successfully processed document. The document ID is d'')
   \<and> map (\<lambda>u. length (fst u)) (upsert_calls (calls (snd (process_document_tool
          (\<lambda>d t m. Inr [chunk_a, chunk_b]) demo_client ''d'' ''alpha beta'' [] None demo_world))))
     = [2]
   \<and> fst (process_document_tool (\<lambda>d t m. Inr [chunk_a]) demo_client ''d'' ''alpha''
          [] None demo_world)
     = Inr (text_result ''Successfully processed document. The document ID is d'')
   \<and> map (\<lambda>u. length (fst u)) (upsert_calls (calls (snd (process_document_tool
          (\<lambda>d t m. Inr [chunk_a]) demo_client ''d'' ''alpha'' [] None demo_world))))
     = [1]"
  by (simp add: demo_run_defs)

text \<open>
  C8. When the chunker yields no chunk, process-document returns the error text
  \<open>Error: No embedded chunks found\<close> and leaves the world as it was: no client method
  is called, so nothing is upserted.
\<close>

theorem no_chunks_is_an_error:
  assumes "chunk_document d t m = Inr []"
  shows "process_document_tool chunk_document cl d t m ns w
           = (Inr (text_result ''Error: No embedded chunks found''), w)
    \<and> upsert_calls (new_calls w (snd (process_document_tool chunk_document cl d t m ns w))) = []"
  using assms
  by (simp add: process_document_tool_def try_except_def process_document_body_def
        new_calls_def upsert_calls_def)

theorem no_chunks_is_an_error_witness:
  "process_document_tool (\<lambda>d t m. Inr []) demo_client ''d'' [] [] None demo_world
     = (Inr (text_result ''Error: No embedded chunks found''), demo_world)"
  using no_chunks_is_an_error
    [where chunk_document = "\<lambda>d t m. Inr []" and d = "''d''" and t = "[]" and m = "[]"
       and cl = demo_client and ns = None and w = demo_world, OF refl]
  by simp

subsection \<open>semantic-search: the query and the filter passed to the store\<close>

lemma semantic_search_new_calls:
  "new_calls w (snd (semantic_search_tool client query top_k namespace category tags date_range w))
     = [SearchRecords query top_k (semantic_search_filters category tags date_range) True namespace
          (fst (search_records client query top_k
                  (semantic_search_filters category tags date_range) True namespace (backend w)))]"
  by (cases "search_records client query top_k
                   (semantic_search_filters category tags date_range) True namespace (backend w)")
     (simp add: semantic_search_tool_def try_except_def error_handler_def new_calls_def
        semantic_search_body_def invoke_def Let_def split: sum.splits)

text \<open>
  C6. The filter semantic-search passes to \<open>search_records\<close> has one entry for each
  supplied parameter and no other: equality on \<open>category\<close>, membership (\<open>$in\<close>) on
  \<open>tags\<close>, an inclusive range (\<open>$gte\<close>, \<open>$lte\<close>) on \<open>date\<close>. Read by the store, it
  holds of a stored record exactly when every supplied constraint does: it is their
  conjunction, and an omitted parameter constrains nothing. (An empty category or tag
  list counts as omitted, C10; a date range is supplied when it has both bounds, C5.)
\<close>

theorem search_filter_conjoins_supplied_constraints:
  "new_calls w (snd (semantic_search_tool client query top_k namespace category tags date_range w))
     = [SearchRecords query top_k (semantic_search_filters category tags date_range) True namespace
          (fst (search_records client query top_k
                  (semantic_search_filters category tags date_range) True namespace (backend w)))]
   \<and> map fst (semantic_search_filters category tags date_range)
     = (case category of None \<Rightarrow> [] | Some c \<Rightarrow> if c = [] then [] else [''category''])
       @ (case tags of None \<Rightarrow> [] | Some ts \<Rightarrow> if ts = [] then [] else [''tags''])
       @ (case date_range of
            None \<Rightarrow> []
          | Some d \<Rightarrow> if map_of d ''start'' = None \<or> map_of d ''end'' = None then []
                      else [''date''])
   \<and> store_matches le (semantic_search_filters category tags date_range) stored
     = spec_search_filter le category tags date_range stored"
proof -
  have keys: "map fst (semantic_search_filters category tags date_range)
     = (case category of None \<Rightarrow> [] | Some c \<Rightarrow> if c = [] then [] else [''category''])
       @ (case tags of None \<Rightarrow> [] | Some ts \<Rightarrow> if ts = [] then [] else [''tags''])
       @ (case date_range of
            None \<Rightarrow> []
          | Some d \<Rightarrow> if map_of d ''start'' = None \<or> map_of d ''end'' = None then []
                      else [''date''])"
    by (auto simp add: semantic_search_filters_def split: option.splits)
  have sem: "store_matches le (semantic_search_filters category tags date_range) stored
     = spec_search_filter le category tags date_range stored"
    by (auto simp add: store_matches_def semantic_search_filters_def spec_search_filter_def
        satisfies_def split: option.splits field.splits)
  show ?thesis using semantic_search_new_calls keys sem by blast
qed

theorem search_filter_conjoins_supplied_constraints_witness:
  "semantic_search_filters (Some ''news'') (Some [''a'', ''b''])
       (Some [(''start'', ''2024-01-01''), (''end'', ''2024-12-31'')])
     = [(''category'', FEq ''news''), (''tags'', FIn [''a'', ''b'']),
        (''date'', FRange ''2024-01-01'' ''2024-12-31'')]
   \<and> store_matches string_le
        (semantic_search_filters (Some ''news'') (Some [''a'', ''b''])
           (Some [(''start'', ''2024-01-01''), (''end'', ''2024-12-31'')])) stored_news
   \<and> \<not> store_matches string_le
        (semantic_search_filters (Some ''news'') (Some [''a'', ''b''])
           (Some [(''start'', ''2024-01-01''), (''end'', ''2024-12-31'')])) stored_other
   \<and> store_matches string_le (semantic_search_filters None None None) stored_other"
  using search_filter_conjoins_supplied_constraints
    [of demo_world demo_client "''q''" 10 None "Some ''news''" "Some [''a'', ''b'']"
        "Some [(''start'', ''2024-01-01''), (''end'', ''2024-12-31'')]" string_le stored_news]
    search_filter_conjoins_supplied_constraints
    [of demo_world demo_client "''q''" 10 None "Some ''news''" "Some [''a'', ''b'']"
        "Some [(''start'', ''2024-01-01''), (''end'', ''2024-12-31'')]" string_le stored_other]
    search_filter_conjoins_supplied_constraints
    [of demo_world demo_client "''q''" 10 None None None None string_le stored_other]
  by (simp add: semantic_search_filters_def spec_search_filter_def stored_news_def
        stored_other_def string_le_def store_matches_def satisfies_def)

subsection \<open>The boundary of the tools\<close>

lemma try_except_fst:
  "fst (try_except body (error_handler prefix) w)
     = Inr (case fst (body w) of Inl e \<Rightarrow> text_result (''Error: '' @ message e) | Inr r \<Rightarrow> r)"
  by (simp add: try_except_def error_handler_def split: prod.splits sum.splits)

lemma try_except_calls:
  "calls (snd (try_except body (error_handler prefix) w)) = calls (snd (body w))"
  by (simp add: try_except_def error_handler_def split: prod.splits sum.splits)

lemma semantic_search_body_fst:
  "fst (semantic_search_body client query top_k namespace category tags date_range w)
     = (case fst (search_records client query top_k
                   (semantic_search_filters category tags date_range) True namespace (backend w)) of
          Inl e \<Rightarrow> Inl e
        | Inr results \<Rightarrow>
            (case format_matches 1 (''Retrieved Contexts:'' @ NL @ NL)
                    (case matches results of None \<Rightarrow> [] | Some ms \<Rightarrow> ms) of
               Inl e \<Rightarrow> Inl e
             | Inr formatted_text \<Rightarrow> Inr (text_result formatted_text)))"
  by (cases "search_records client query top_k
                   (semantic_search_filters category tags date_range) True namespace (backend w)")
     (simp add: semantic_search_body_def invoke_def Let_def split: sum.splits)

lemma semantic_search_body_calls:
  "calls (snd (semantic_search_body client query top_k namespace category tags date_range w))
     = calls w @ [SearchRecords query top_k (semantic_search_filters category tags date_range)
                    True namespace
                    (fst (search_records client query top_k
                       (semantic_search_filters category tags date_range) True namespace
                       (backend w)))]"
  by (cases "search_records client query top_k
                   (semantic_search_filters category tags date_range) True namespace (backend w)")
     (simp add: semantic_search_body_def invoke_def Let_def split: sum.splits)

text \<open>
  C1, as amended. semantic-search does not validate its query: with the empty string as
  query it calls \<open>search_records\<close> once, with the empty query and the filter built from
  the other parameters, and its result reports an error exactly when that call, or the
  formatting of its matches, raises.
\<close>

theorem empty_query_is_searched:
  "calls (snd (semantic_search_tool client [] top_k namespace category tags date_range w))
     = calls w @ [SearchRecords [] top_k (semantic_search_filters category tags date_range)
                    True namespace
                    (fst (search_records client [] top_k
                       (semantic_search_filters category tags date_range) True namespace
                       (backend w)))]
   \<and> fst (semantic_search_tool client [] top_k namespace category tags date_range w)
     = Inr (text_result
         (case fst (search_records client [] top_k
                     (semantic_search_filters category tags date_range) True namespace
                     (backend w)) of
            Inl e \<Rightarrow> ''Error: '' @ message e
          | Inr results \<Rightarrow>
              (case format_matches 1 (''Retrieved Contexts:'' @ NL @ NL)
                      (case matches results of None \<Rightarrow> [] | Some ms \<Rightarrow> ms) of
                 Inl e \<Rightarrow> ''Error: '' @ message e
               | Inr formatted_text \<Rightarrow> formatted_text)))"
  by (simp add: semantic_search_tool_def try_except_fst try_except_calls
        semantic_search_body_fst semantic_search_body_calls split: sum.splits)

text \<open>
  C1, as stated, fails: with a client that answers, the empty query returns the heading
  of an empty result list, not an error, and the store has been queried.
\<close>

theorem empty_query_not_rejected:
  "fst (semantic_search_tool demo_client [] 10 None None None None demo_world)
     = Inr (text_result (''Retrieved Contexts:'' @ [CHR 0x0A, CHR 0x0A]))
   \<and> calls (snd (semantic_search_tool demo_client [] 10 None None None None demo_world))
     = [SearchRecords [] 10 [] True None (Inr \<lparr>matches = Some []\<rparr>)]"
  by (simp add: semantic_search_tool_def try_except_def semantic_search_body_def
        semantic_search_filters_def invoke_def demo_client_def demo_world_def NL_def)

lemma semantic_search_body_text:
  "fst (semantic_search_body client query top_k namespace category tags date_range w) = Inr r
     \<Longrightarrow> \<exists>t. r = text_result t"
  by (auto simp add: semantic_search_body_fst split: sum.splits)

lemma pinecone_stats_body_text:
  "fst (pinecone_stats_body dumps client w) = Inr r \<Longrightarrow> \<exists>t. r = text_result t"
  by (auto simp add: pinecone_stats_body_def split: prod.splits sum.splits)

lemma list_documents_body_text:
  "fst (list_documents_body dumps client namespace w) = Inr r \<Longrightarrow> \<exists>t. r = text_result t"
  by (auto simp add: list_documents_body_def split: prod.splits sum.splits)

lemma read_document_body_text:
  "fst (read_document_body client document_id namespace w) = Inr r \<Longrightarrow> \<exists>t. r = text_result t"
  by (auto simp add: read_document_body_def Let_def split: prod.splits sum.splits option.splits)

lemma process_document_body_text:
  "fst (process_document_body chunk_document client document_id txt md namespace w) = Inr r
     \<Longrightarrow> \<exists>t. r = text_result t"
  by (auto simp add: process_document_body_def split: prod.splits sum.splits if_splits)

lemma tool_text:
  assumes "\<And>r. fst (body w) = Inr r \<Longrightarrow> \<exists>t. r = text_result t"
  shows "\<exists>t. fst (try_except body (error_handler prefix) w) = Inr (text_result t)"
proof (cases "fst (body w)")
  case (Inl e)
  then have "fst (try_except body (error_handler prefix) w)
               = Inr (text_result (''Error: '' @ message e))"
    by (simp add: try_except_fst)
  then show ?thesis by blast
next
  case (Inr r)
  with assms obtain t where "r = text_result t" by blast
  with Inr have "fst (try_except body (error_handler prefix) w) = Inr (text_result t)"
    by (simp add: try_except_fst)
  then show ?thesis by blast
qed

text \<open>
  C9. Each of the five tools returns a text result for every input and every behaviour
  of the client (its methods may raise, the chunker and \<open>json.dumps\<close> too): nothing is
  raised across the tool's boundary, and an exception raised inside the \<open>try\<close> block
  becomes the text \<open>Error: \<close> followed by the exception's message.
\<close>

theorem tools_catch_every_failure:
  "(\<exists>t. fst (semantic_search_tool client query top_k namespace category tags date_range w)
          = Inr (text_result t))
   \<and> (\<exists>t. fst (pinecone_stats_tool dumps client w) = Inr (text_result t))
   \<and> (\<exists>t. fst (read_document_tool client document_id namespace w) = Inr (text_result t))
   \<and> (\<exists>t. fst (process_document_tool chunk_document client document_id txt md namespace w)
          = Inr (text_result t))
   \<and> (\<exists>t. fst (list_documents_tool dumps client ns w) = Inr (text_result t))
   \<and> fst (semantic_search_tool client query top_k namespace category tags date_range w)
       = Inr (case fst (semantic_search_body client query top_k namespace category tags
                          date_range w) of
                Inl e \<Rightarrow> text_result (''Error: '' @ message e) | Inr r \<Rightarrow> r)
   \<and> fst (pinecone_stats_tool dumps client w)
       = Inr (case fst (pinecone_stats_body dumps client w) of
                Inl e \<Rightarrow> text_result (''Error: '' @ message e) | Inr r \<Rightarrow> r)
   \<and> fst (read_document_tool client document_id namespace w)
       = Inr (case fst (read_document_body client document_id namespace w) of
                Inl e \<Rightarrow> text_result (''Error: '' @ message e) | Inr r \<Rightarrow> r)
   \<and> fst (process_document_tool chunk_document client document_id txt md namespace w)
       = Inr (case fst (process_document_body chunk_document client document_id txt md
                          namespace w) of
                Inl e \<Rightarrow> text_result (''Error: '' @ message e) | Inr r \<Rightarrow> r)
   \<and> fst (list_documents_tool dumps client ns w)
       = Inr (case fst (list_documents_body dumps client ns w) of
                Inl e \<Rightarrow> text_result (''Error: '' @ message e) | Inr r \<Rightarrow> r)"
proof -
  have s: "\<exists>t. fst (semantic_search_tool client query top_k namespace category tags date_range w)
          = Inr (text_result t)"
    unfolding semantic_search_tool_def by (rule tool_text) (rule semantic_search_body_text)
  have p: "\<exists>t. fst (pinecone_stats_tool dumps client w) = Inr (text_result t)"
    unfolding pinecone_stats_tool_def by (rule tool_text) (rule pinecone_stats_body_text)
  have r: "\<exists>t. fst (read_document_tool client document_id namespace w) = Inr (text_result t)"
    unfolding read_document_tool_def by (rule tool_text) (rule read_document_body_text)
  have d: "\<exists>t. fst (process_document_tool chunk_document client document_id txt md namespace w)
          = Inr (text_result t)"
    unfolding process_document_tool_def by (rule tool_text) (rule process_document_body_text)
  have l: "\<exists>t. fst (list_documents_tool dumps client ns w) = Inr (text_result t)"
    unfolding list_documents_tool_def by (rule tool_text) (rule list_documents_body_text)
  show ?thesis
    using s p r d l
    by (simp add: semantic_search_tool_def pinecone_stats_tool_def read_document_tool_def
          process_document_tool_def list_documents_tool_def try_except_fst)
qed

theorem tools_catch_every_failure_witness:
  "fst (semantic_search_tool failing_client ''q'' 10 None None None None demo_world)
     = Inr (text_result ''Error: store unavailable'')
   \<and> fst (pinecone_stats_tool Inr failing_client demo_world)
     = Inr (text_result ''Error: store unavailable'')
   \<and> fst (read_document_tool failing_client ''doc1'' None demo_world)
     = Inr (text_result ''Error: store unavailable'')
   \<and> fst (process_document_tool (\<lambda>d t m. Inr [chunk_a]) failing_client ''d'' ''alpha'' [] None
          demo_world)
     = Inr (text_result ''Error: store unavailable'')
   \<and> fst (list_documents_tool Inr failing_client ''ns'' demo_world)
     = Inr (text_result ''Error: store unavailable'')
   \<and> fst (process_document_tool (\<lambda>d t m. Inr [chunk_boom]) demo_client ''d'' ''boom'' [] None
          demo_world)
     = Inr (text_result ''Error: embedding failed'')
   \<and> fst (process_document_tool (\<lambda>d t m. Inl (Exn ''cannot chunk'')) demo_client ''d'' ''boom''
          [] None demo_world)
     = Inr (text_result ''Error: cannot chunk'')"
  using tools_catch_every_failure
    [of failing_client "''q''" 10 None None None None demo_world Inr "''doc1''"
        "\<lambda>d t m. Inr [chunk_a]" "''alpha''" "[]" "''ns''"]
  by (simp add: semantic_search_tool_def pinecone_stats_tool_def read_document_tool_def
        process_document_tool_def list_documents_tool_def try_except_def error_handler_def
        semantic_search_body_def pinecone_stats_body_def read_document_body_def
        process_document_body_def list_documents_body_def semantic_search_filters_def
        invoke_def failing_client_def demo_client_def demo_world_def chunk_a_def
        chunk_boom_def)

subsection \<open>read-document and the fetch-by-id resource\<close>

lemma join_lines_hd: "hd (join_lines ((c # l) # ls)) = c"
  by (cases ls) simp_all

lemma read_document_found:
  assumes fr: "fst (fetch_records client [i] namespace (backend w)) = Inr resp"
    and v: "map_of (vectors resp) i = Some vector"
  shows "fst (read_document_tool client i namespace w)
     = Inr (text_result (join_lines
         ([''Document ID: '' @ i, ''''] @
          (case vector_metadata vector of
             None \<Rightarrow> []
           | Some md \<Rightarrow> if md = [] then [] else ''Metadata:'' # metadata_lines md))))"
  using fr v
  by (cases "fetch_records client [i] namespace (backend w)")
     (simp add: read_document_tool_def try_except_def read_document_body_def invoke_def Let_def
        split: option.splits)

lemma get_vector_resource_found:
  assumes fr: "fst (fetch_records client [i] None (backend w)) = Inr resp"
    and vd: "records resp = Some (vector_data # rest)"
  shows "fst (get_vector_resource (Inr client) i w)
     = (case format_text_content vector_data of
          Inl e \<Rightarrow> ErrorJson (message e)
        | Inr t \<Rightarrow> Formatted t)"
  using fr vd
  by (cases "fetch_records client [i] None (backend w)")
     (simp add: get_vector_resource_def format_text_content_def invoke_def Let_def
        split: option.splits sum.splits)

text \<open>
  C3, as amended. For a record stored under an identifier, with its text under the key
  \<open>text\<close>: the fetch-by-id resource returns the title line if there is a title, the id
  line, each metadata field other than \<open>title\<close>, \<open>text\<close> and \<open>content_type\<close> as
  \<open>key: value\<close>, a blank line, then the stored text (which is what
  \<open>format_text_content\<close> returns). read-document returns another text: the line
  \<open>Document ID: \<close> with the id, a blank line, the line \<open>Metadata:\<close>, then every
  metadata field as \<open>key: value\<close>. The two texts are never equal.
\<close>

theorem read_document_differs_from_resource:
  assumes fr: "fst (fetch_records client [i] namespace (backend w)) = Inr resp"
    and v: "map_of (vectors resp) i = Some \<lparr>vector_metadata = Some md\<rparr>"
    and fr': "fst (fetch_records client [i] None (backend w)) = Inr resp'"
    and vd: "records resp' = Some (\<lparr>vd_id = Some i, vd_metadata = Some md\<rparr> # rest)"
    and st: "map_of md ''text'' = Some (PStr stored_text)"
  shows "fst (get_vector_resource (Inr client) i w)
       = Formatted (join_lines
           ((case map_of md ''title'' of None \<Rightarrow> [] | Some t \<Rightarrow> [''Title: '' @ py_str t]) @
            [''ID: '' @ i] @
            map (\<lambda>(key, val). key @ '': '' @ py_str val)
              (filter (\<lambda>(key, val). key \<noteq> ''title'' \<and> key \<noteq> ''text'' \<and> key \<noteq> ''content_type'') md) @
            ['''', stored_text]))
    \<and> format_text_content \<lparr>vd_id = Some i, vd_metadata = Some md\<rparr>
       = Inr (join_lines
           ((case map_of md ''title'' of None \<Rightarrow> [] | Some t \<Rightarrow> [''Title: '' @ py_str t]) @
            [''ID: '' @ i] @
            map (\<lambda>(key, val). key @ '': '' @ py_str val)
              (filter (\<lambda>(key, val). key \<noteq> ''title'' \<and> key \<noteq> ''text'' \<and> key \<noteq> ''content_type'') md) @
            ['''', stored_text]))
    \<and> fst (read_document_tool client i namespace w)
       = Inr (text_result (join_lines
           ([''Document ID: '' @ i, '''', ''Metadata:''] @
            map (\<lambda>(key, val). key @ '': '' @ py_str val) md)))
    \<and> Inr (text_result (join_lines
           ((case map_of md ''title'' of None \<Rightarrow> [] | Some t \<Rightarrow> [''Title: '' @ py_str t]) @
            [''ID: '' @ i] @
            map (\<lambda>(key, val). key @ '': '' @ py_str val)
              (filter (\<lambda>(key, val). key \<noteq> ''title'' \<and> key \<noteq> ''text'' \<and> key \<noteq> ''content_type'') md) @
            ['''', stored_text])))
       \<noteq> fst (read_document_tool client i namespace w)"
proof -
  let ?out = "(case map_of md ''title'' of None \<Rightarrow> [] | Some t \<Rightarrow> [''Title: '' @ py_str t]) @
            [''ID: '' @ i] @
            map (\<lambda>(key, val). key @ '': '' @ py_str val)
              (filter (\<lambda>(key, val). key \<noteq> ''title'' \<and> key \<noteq> ''text'' \<and> key \<noteq> ''content_type'') md) @
            ['''', stored_text]"
  have ne: "md \<noteq> []" using st by auto
  have f: "format_text_content \<lparr>vd_id = Some i, vd_metadata = Some md\<rparr> = Inr (join_lines ?out)"
    using st by (simp add: format_text_content_def join_output_def Let_def)
  have g: "fst (get_vector_resource (Inr client) i w) = Formatted (join_lines ?out)"
    using get_vector_resource_found [OF fr' vd] f by simp
  have r: "fst (read_document_tool client i namespace w)
       = Inr (text_result (join_lines
           ([''Document ID: '' @ i, '''', ''Metadata:''] @
            map (\<lambda>(key, val). key @ '': '' @ py_str val) md)))"
    using read_document_found [OF fr v] ne by (simp add: metadata_lines_def)
  have h1: "hd (join_lines ([''Document ID: '' @ i, '''', ''Metadata:''] @
            map (\<lambda>(key, val). key @ '': '' @ py_str val) md)) = CHR ''D''"
    by (simp add: join_lines_hd)
  have h2: "hd (join_lines ?out) = CHR ''T'' \<or> hd (join_lines ?out) = CHR ''I''"
    by (cases "map_of md ''title''") (simp_all add: join_lines_hd)
  have d: "join_lines ?out \<noteq> join_lines ([''Document ID: '' @ i, '''', ''Metadata:''] @
            map (\<lambda>(key, val). key @ '': '' @ py_str val) md)"
    using h1 h2 by auto
  show ?thesis using f g r d by (simp add: text_result_def)
qed

theorem read_document_differs_from_resource_witness:
  "fst (get_vector_resource (Inr demo_client) ''doc1'' demo_world)
     = Formatted (''Title: Notes'' @ NL @ ''ID: doc1'' @ NL @ ''category: news'' @ NL @ NL @ ''hello'')
   \<and> fst (read_document_tool demo_client ''doc1'' (Some ''ns'') demo_world)
     = Inr (text_result (''Document ID: doc1'' @ NL @ NL @ ''Metadata:'' @ NL @ ''title: Notes''
          @ NL @ ''category: news'' @ NL @ ''text: hello''))"
  using read_document_differs_from_resource
    [where client = demo_client and i = "''doc1''" and namespace = "Some ''ns''" and w = demo_world
       and resp = "\<lparr>vectors = [(''doc1'', \<lparr>vector_metadata = Some doc1_metadata\<rparr>)],
                    records = Some [\<lparr>vd_id = Some ''doc1'', vd_metadata = Some doc1_metadata\<rparr>]\<rparr>"
       and resp' = "\<lparr>vectors = [(''doc1'', \<lparr>vector_metadata = Some doc1_metadata\<rparr>)],
                    records = Some [\<lparr>vd_id = Some ''doc1'', vd_metadata = Some doc1_metadata\<rparr>]\<rparr>"
       and md = doc1_metadata and rest = "[]" and stored_text = "''hello''"]
  by (simp add: demo_client_def demo_world_def doc1_metadata_def NL_def)

text \<open>
  C3, as stated, fails: for the stored document \<open>doc1\<close> the two endpoints return
  different texts.
\<close>

theorem read_document_text_is_not_resource_text:
  "fst (read_document_tool demo_client ''doc1'' None demo_world)
     = Inr (text_result (''Document ID: doc1'' @ NL @ NL @ ''Metadata:'' @ NL @ ''title: Notes''
          @ NL @ ''category: news'' @ NL @ ''text: hello''))
   \<and> fst (get_vector_resource (Inr demo_client) ''doc1'' demo_world)
     = Formatted (''Title: Notes'' @ NL @ ''ID: doc1'' @ NL @ ''category: news'' @ NL @ NL @ ''hello'')
   \<and> ''Document ID: doc1'' @ NL @ NL @ ''Metadata:'' @ NL @ ''title: Notes''
          @ NL @ ''category: news'' @ NL @ ''text: hello''
     \<noteq> ''Title: Notes'' @ NL @ ''ID: doc1'' @ NL @ ''category: news'' @ NL @ NL @ ''hello''"
  by (simp add: read_document_tool_def try_except_def read_document_body_def invoke_def
        get_vector_resource_def join_output_def metadata_lines_def demo_client_def
        demo_world_def doc1_metadata_def NL_def text_result_def)

end
